theory Spec2Isabelle
  imports Complex_Main "HOL-Library.Multiset"
begin

section \<open>Tensor entries\<close>

text \<open>
  The losses of \<^verbatim>\<open>algorithm/utils_loss.py\<close> are tensor arithmetic. A tensor entry is
  modelled as an exact real number or one of the three non-finite values of the
  floating-point format, so that a division by zero, the logarithm of zero and the mean of
  an empty tensor are values of the model, as they are values (and not exceptions) in
  torch. Rounding, overflow of finite results and the sign of zero are not modelled: a
  finite result is the exact real result, and a zero divisor counts as positive zero. So
  the sum and the product of finite entries are finite and exact, and the exponential of a
  finite entry is positive and finite, where single precision rounds, overflows to an
  infinity and underflows to zero. A statement below that depends on the values computed
  carries a hypothesis on them: the call returns, no log-probability is NaN, a probability
  is above a threshold.
\<close>

datatype fl = Fin real | PInf | NInf | NaN

instantiation fl :: "{zero, one, plus, uminus, minus, times, inverse}"
begin

definition zero_fl :: fl where
  "zero_fl = Fin 0"

definition one_fl :: fl where
  "one_fl = Fin 1"

fun plus_fl :: "fl \<Rightarrow> fl \<Rightarrow> fl" where
  "plus_fl (Fin a) (Fin b) = Fin (a + b)"
| "plus_fl NaN y = NaN"
| "plus_fl x NaN = NaN"
| "plus_fl PInf NInf = NaN"
| "plus_fl NInf PInf = NaN"
| "plus_fl PInf y = PInf"
| "plus_fl x PInf = PInf"
| "plus_fl NInf y = NInf"
| "plus_fl x NInf = NInf"

fun uminus_fl :: "fl \<Rightarrow> fl" where
  "uminus_fl (Fin a) = Fin (- a)"
| "uminus_fl PInf = NInf"
| "uminus_fl NInf = PInf"
| "uminus_fl NaN = NaN"

definition minus_fl :: "fl \<Rightarrow> fl \<Rightarrow> fl" where
  "minus_fl x y = x + (- y)"

fun times_fl :: "fl \<Rightarrow> fl \<Rightarrow> fl" where
  "times_fl (Fin a) (Fin b) = Fin (a * b)"
| "times_fl NaN y = NaN"
| "times_fl x NaN = NaN"
| "times_fl (Fin a) PInf = (if a = 0 then NaN else if 0 < a then PInf else NInf)"
| "times_fl (Fin a) NInf = (if a = 0 then NaN else if 0 < a then NInf else PInf)"
| "times_fl PInf (Fin b) = (if b = 0 then NaN else if 0 < b then PInf else NInf)"
| "times_fl NInf (Fin b) = (if b = 0 then NaN else if 0 < b then NInf else PInf)"
| "times_fl PInf PInf = PInf"
| "times_fl NInf NInf = PInf"
| "times_fl PInf NInf = NInf"
| "times_fl NInf PInf = NInf"

fun divide_fl :: "fl \<Rightarrow> fl \<Rightarrow> fl" where
  "divide_fl (Fin a) (Fin b) =
     (if b \<noteq> 0 then Fin (a / b)
      else if a = 0 then NaN else if 0 < a then PInf else NInf)"
| "divide_fl NaN y = NaN"
| "divide_fl x NaN = NaN"
| "divide_fl (Fin a) y = Fin 0"
| "divide_fl PInf (Fin b) = (if 0 \<le> b then PInf else NInf)"
| "divide_fl NInf (Fin b) = (if 0 \<le> b then NInf else PInf)"
| "divide_fl x y = NaN"

definition inverse_fl :: "fl \<Rightarrow> fl" where
  "inverse_fl x = divide (Fin 1) x"

instance ..

end

lemma fl_add_assoc: "(x + y) + z = x + (y + z)" for x y z :: fl
  by (cases x; cases y; cases z; simp)

lemma fl_add_commute: "x + y = y + x" for x y :: fl
  by (cases x; cases y; simp)

lemma fl_add_zero: "Fin 0 + x = x"
  by (cases x; simp)

instance fl :: comm_monoid_add
  by standard (rule fl_add_assoc, rule fl_add_commute, simp only: zero_fl_def fl_add_zero)

fun fexp :: "fl \<Rightarrow> fl" where
  "fexp (Fin a) = Fin (exp a)"
| "fexp PInf = PInf"
| "fexp NInf = Fin 0"
| "fexp NaN = NaN"

fun flog :: "fl \<Rightarrow> fl" where
  "flog (Fin a) = (if 0 < a then Fin (ln a) else if a = 0 then NInf else NaN)"
| "flog PInf = PInf"
| "flog NInf = NaN"
| "flog NaN = NaN"

text \<open>Comparison \<open>x < y\<close> of two entries; every comparison with NaN is false.\<close>

fun fl_less :: "fl \<Rightarrow> fl \<Rightarrow> bool" where
  "fl_less (Fin a) (Fin b) = (a < b)"
| "fl_less NaN y = False"
| "fl_less x NaN = False"
| "fl_less x NInf = False"
| "fl_less NInf y = True"
| "fl_less PInf y = False"
| "fl_less x PInf = True"

definition isnan :: "fl \<Rightarrow> bool" where
  "isnan x = (x = NaN)"

definition fl_max :: "fl \<Rightarrow> fl \<Rightarrow> fl" where
  "fl_max x y = (if isnan x \<or> isnan y then NaN else if fl_less x y then y else x)"

section \<open>Tensors\<close>

type_synonym vec = "fl list"
type_synonym mat = "fl list list"

datatype error =
    Cannot_define_both_labels_and_mask
  | Num_of_labels_does_not_match_num_of_features
  | Log_prob_has_nan
  | Torch_error
  | ZeroDivisionError

definition eye :: "nat \<Rightarrow> mat" where
  "eye n = map (\<lambda>i. map (\<lambda>j. if i = j then 1 else 0) [0..<n]) [0..<n]"

definition ones_like :: "mat \<Rightarrow> mat" where
  "ones_like m = map (map (\<lambda>x. 1)) m"

definition mat_mul :: "mat \<Rightarrow> mat \<Rightarrow> mat" where
  "mat_mul a b = map2 (map2 (*)) a b"

definition mat_sub :: "mat \<Rightarrow> mat \<Rightarrow> mat" where
  "mat_sub a b = map2 (map2 (-)) a b"

definition dot :: "vec \<Rightarrow> vec \<Rightarrow> fl" where
  "dot x y = sum_list (map2 (*) x y)"

text \<open>\<open>matmul_T a b\<close> is \<^verbatim>\<open>torch.matmul(a, b.T)\<close>.\<close>

definition matmul_T :: "mat \<Rightarrow> mat \<Rightarrow> mat" where
  "matmul_T a b = map (\<lambda>x. map (\<lambda>y. dot x y) b) a"

text \<open>\<^verbatim>\<open>torch.max(row)\<close> of a non-empty row.\<close>

definition row_max :: "vec \<Rightarrow> fl" where
  "row_max r = foldl fl_max (hd r) (tl r)"

text \<open>\<^verbatim>\<open>x.mean()\<close>: the sum over the number of entries, NaN for the empty tensor.\<close>

definition mean :: "vec \<Rightarrow> fl" where
  "mean xs = sum_list xs / Fin (real (length xs))"

text \<open>
  A tensor argument is a list of rows, all of one length. The first three errors are the
  \<^verbatim>\<open>ValueError\<close>s that the source raises. \<open>Torch_error\<close> stands for an exception
  raised inside a torch operation: operands of incompatible shapes, an index out of range,
  a maximum along a dimension of size zero. The model returns it for every call outside
  the shape contract of the operation, which leaves out the degenerate shapes that torch
  would broadcast. \<open>ZeroDivisionError\<close> is Python's, for the quotient of two Python
  floats.
\<close>

definition is_shape :: "nat \<Rightarrow> nat \<Rightarrow> 'a list list \<Rightarrow> bool" where
  "is_shape n m a = (length a = n \<and> list_all (\<lambda>r. length r = m) a)"

section \<open>InfoNCE2\<close>

text \<open>
  \<^verbatim>\<open>InfoNCE2.forward\<close>, lines 41 to 51: the check of the optional arguments, which
  yields the mask. The labels are the flattened tensor of class ids.
\<close>

definition InfoNCE2_check_input :: "nat \<Rightarrow> int list option \<Rightarrow> mat option \<Rightarrow> error + mat" where
  "InfoNCE2_check_input batch_size labels mask' =
     (case (labels, mask') of
        (Some l, Some m) \<Rightarrow> Inl Cannot_define_both_labels_and_mask
      | (None, None) \<Rightarrow> Inr (eye batch_size)
      | (Some l, None) \<Rightarrow>
          if length l \<noteq> batch_size then Inl Num_of_labels_does_not_match_num_of_features
          else Inr (map (\<lambda>a. map (\<lambda>b. if a = b then 1 else 0) l) l)
      | (None, Some m) \<Rightarrow> Inr m)"

text \<open>Lines 53 to 56: the logits, each row shifted by its maximum.\<close>

definition InfoNCE2_logits :: "fl \<Rightarrow> mat \<Rightarrow> mat" where
  "InfoNCE2_logits temperature features =
     (let anchor_dot_contrast = map (map (\<lambda>x. x / temperature)) (matmul_T features features);
          logits_max = map row_max anchor_dot_contrast
      in map2 (\<lambda>r m. map (\<lambda>x. x - m) r) anchor_dot_contrast logits_max)"

text \<open>Lines 60 and 61: the positive mask, self-pairs excluded.\<close>

definition InfoNCE2_positives_mask :: "nat \<Rightarrow> mat \<Rightarrow> mat" where
  "InfoNCE2_positives_mask batch_size mask' =
     (let logits_mask = mat_sub (ones_like mask') (eye batch_size)
      in mat_mul mask' logits_mask)"

text \<open>Lines 62, 65 and 66: the denominator of each row and the log-probabilities.\<close>

definition InfoNCE2_denominator :: "mat \<Rightarrow> mat \<Rightarrow> mat \<Rightarrow> vec" where
  "InfoNCE2_denominator logits mask' positives_mask =
     (let exp_logits = map (map fexp) logits;
          negatives_mask = map (map (\<lambda>x. 1 - x)) mask'
      in map2 (+) (map sum_list (mat_mul exp_logits negatives_mask))
                  (map sum_list (mat_mul exp_logits positives_mask)))"

definition InfoNCE2_log_probs :: "mat \<Rightarrow> vec \<Rightarrow> mat" where
  "InfoNCE2_log_probs logits denominator =
     map2 (\<lambda>r d. map (\<lambda>x. x - flog (d + Fin (1 / 10 ^ 12))) r) logits denominator"

text \<open>
  Line 71: the boolean index keeps the rows whose number of positives is greater than
  zero; each kept row is its sum of positive log-probabilities with that number.
\<close>

definition InfoNCE2_kept :: "mat \<Rightarrow> mat \<Rightarrow> (fl \<times> fl) list" where
  "InfoNCE2_kept log_probs positives_mask =
     (let num_positives_per_row = map sum_list positives_mask
      in filter (\<lambda>(s, n). fl_less 0 n)
           (zip (map sum_list (mat_mul log_probs positives_mask)) num_positives_per_row))"

text \<open>
  Lines 53 to 78. \<^verbatim>\<open>torch.max\<close> along a dimension of size zero raises, so the empty
  batch is a \<open>Torch_error\<close>, as is a mask that is not \<open>batch_size\<close> by \<open>batch_size\<close>.
\<close>

definition InfoNCE2_loss :: "fl \<Rightarrow> bool \<Rightarrow> mat \<Rightarrow> mat \<Rightarrow> error + fl" where
  "InfoNCE2_loss temperature scale_by_temperature features mask' =
     (let batch_size = length features in
      if batch_size = 0 \<or> \<not> is_shape batch_size batch_size mask' then Inl Torch_error
      else
        let logits = InfoNCE2_logits temperature features;
            positives_mask = InfoNCE2_positives_mask batch_size mask';
            denominator = InfoNCE2_denominator logits mask' positives_mask;
            log_probs = InfoNCE2_log_probs logits denominator
        in if list_ex (list_ex isnan) log_probs then Inl Log_prob_has_nan
           else
             let log_probs = map (\<lambda>(s, n). s / n) (InfoNCE2_kept log_probs positives_mask);
                 loss = map uminus log_probs;
                 loss = (if scale_by_temperature then map (\<lambda>x. x * temperature) loss else loss)
             in Inr (mean loss))"

definition InfoNCE2_forward :: "fl \<Rightarrow> bool \<Rightarrow> mat \<Rightarrow> int list option \<Rightarrow> mat option \<Rightarrow> error + fl" where
  "InfoNCE2_forward temperature scale_by_temperature features labels mask' =
     (case InfoNCE2_check_input (length features) labels mask' of
        Inl e \<Rightarrow> Inl e
      | Inr mask' \<Rightarrow> InfoNCE2_loss temperature scale_by_temperature features mask')"

section \<open>SupConLoss, supervised mode\<close>

text \<open>
  \<^verbatim>\<open>SupConLoss.forward\<close>, the branch \<^verbatim>\<open>mask is not None\<close> (lines 93 to 127).
  The first \<open>batch_size\<close> rows of the features are the anchors; the mask has one row for
  each anchor and one column for each feature row. \<^verbatim>\<open>torch.arange\<close> raises on a
  negative \<open>batch_size\<close>. The quotient of the two temperatures is a quotient of
  Python floats.
\<close>

definition SupConLoss_logits_mask :: "nat \<Rightarrow> nat \<Rightarrow> mat" where
  "SupConLoss_logits_mask n M = map (\<lambda>i. map (\<lambda>j. if j = i then 0 else 1) [0..<M]) [0..<n]"

text \<open>Lines 97 to 118: the mean log-probability of the positives of each anchor.\<close>

definition SupConLoss_mean_log_prob_pos :: "fl \<Rightarrow> mat \<Rightarrow> mat \<Rightarrow> nat \<Rightarrow> vec" where
  "SupConLoss_mean_log_prob_pos temperature features mask' n =
     (let anchor_dot_contrast =
            map (map (\<lambda>x. x / temperature)) (matmul_T (take n features) features);
          logits_max = map row_max anchor_dot_contrast;
          logits = map2 (\<lambda>r m. map (\<lambda>x. x - m) r) anchor_dot_contrast logits_max;
          logits_mask = SupConLoss_logits_mask n (length features);
          mask' = mat_mul mask' logits_mask;
          exp_logits = mat_mul (map (map fexp) logits) logits_mask;
          log_prob = map2 (\<lambda>r e. map (\<lambda>x. x - flog (sum_list e + Fin (1 / 10 ^ 12))) r)
                       logits exp_logits
      in map2 (\<lambda>m l. sum_list (map2 (*) m l) / sum_list m) mask' log_prob)"

definition SupConLoss_supervised ::
    "fl \<Rightarrow> fl \<Rightarrow> mat \<Rightarrow> mat \<Rightarrow> int \<Rightarrow> vec option \<Rightarrow> error + fl" where
  "SupConLoss_supervised temperature base_temperature features mask' batch_size weights =
     (let M = length features; n = nat batch_size in
      if batch_size < 0 \<or> M < n \<or> M = 0 \<or> \<not> is_shape n M mask' then Inl Torch_error
      else
        let mean_log_prob_pos = SupConLoss_mean_log_prob_pos temperature features mask' n
        in if base_temperature = Fin 0 then Inl ZeroDivisionError
           else
             let loss = map (\<lambda>x. (- (temperature / base_temperature)) * x) mean_log_prob_pos
             in case weights of
                  None \<Rightarrow> Inr (mean loss)
                | Some w \<Rightarrow>
                    if length w \<noteq> n then Inl Torch_error else Inr (mean (map2 (*) loss w)))"

section \<open>ConLoss\<close>

text \<open>
  \<^verbatim>\<open>F.softmax\<close> along a row, in the shifted form that torch computes.
\<close>

definition softmax :: "vec \<Rightarrow> vec" where
  "softmax r = (let e = map (\<lambda>x. fexp (x - row_max r)) r in map (\<lambda>x. x / sum_list e) e)"

text \<open>
  The index that \<^verbatim>\<open>torch.max\<close> returns along a row: the position of the maximum, the
  first one where several entries are maximal (torch leaves that choice open).
\<close>

definition argmax :: "vec \<Rightarrow> nat" where
  "argmax r = length (takeWhile (\<lambda>x. x \<noteq> row_max r) r)"

text \<open>\<^verbatim>\<open>(Y == 1.0).nonzero()\<close>: the positions of the ones, row by row.\<close>

definition nonzero_ones :: "mat \<Rightarrow> (nat \<times> nat) list" where
  "nonzero_ones Y =
     concat (map (\<lambda>i. map (\<lambda>j. (i, j)) (filter (\<lambda>j. Y ! i ! j = Fin 1) [0..<length (Y ! i)]))
                 [0..<length Y])"

text \<open>
  The loop of lines 188 to 195 over the positions of \<open>pos_set\<close>. Every row of
  \<open>predict_labels\<close> is \<open>target_predict\<close>. Reading the confidence out of range raises.
\<close>

fun ConLoss_mask_logits :: "mat \<Rightarrow> nat list \<Rightarrow> (nat \<times> nat) list \<Rightarrow> mat \<Rightarrow> error + mat" where
  "ConLoss_mask_logits confidence target_predict [] mask_logits = Inr mask_logits"
| "ConLoss_mask_logits confidence target_predict ((sample_idx, class_idx) # pos_set) mask_logits =
     (let mask_logits_tmp = map (\<lambda>p. if p = class_idx then 1 else 0) target_predict in
      if fl_less 0 (sum_list mask_logits_tmp) then
        (if sample_idx < length confidence \<and> class_idx < length (confidence ! sample_idx) then
           let mask_logits_tmp = map (\<lambda>x. x / sum_list mask_logits_tmp) mask_logits_tmp;
               c = confidence ! sample_idx ! class_idx
           in ConLoss_mask_logits confidence target_predict pos_set
                (mask_logits[sample_idx :=
                   map2 (+) (mask_logits ! sample_idx) (map (\<lambda>x. x * c) mask_logits_tmp)])
         else Inl Torch_error)
      else ConLoss_mask_logits confidence target_predict pos_set mask_logits)"

text \<open>\<^verbatim>\<open>m.repeat(a, b)\<close> of a matrix: \<open>a\<close> copies down, \<open>b\<close> copies across.\<close>

definition repeat :: "nat \<Rightarrow> nat \<Rightarrow> mat \<Rightarrow> mat" where
  "repeat a b m = concat (replicate a (map (\<lambda>r. concat (replicate b r)) m))"

text \<open>
  Lines 214 to 217: the refined target. Each entry of \<open>Y * output_sm_d\<close> is divided by
  the sum of its row.
\<close>

definition revisedY :: "mat \<Rightarrow> mat \<Rightarrow> mat" where
  "revisedY Y output_sm_d =
     (let revisedY_raw = mat_mul Y output_sm_d
      in map (\<lambda>r. map (\<lambda>x. x / sum_list r) r) revisedY_raw)"

text \<open>
  \<^verbatim>\<open>ConLoss.forward\<close>. The features are \<open>batch_size\<close> samples of \<open>contrast_count\<close>
  views each; \<open>Y\<close> and the first \<open>batch_size\<close> rows of the outputs have one column for
  each class. The temperature is the constant 0.1. The argument \<open>index\<close> is not used.
\<close>

definition ConLoss_forward ::
    "fl \<Rightarrow> mat \<Rightarrow> mat \<Rightarrow> vec list list \<Rightarrow> mat \<Rightarrow> int list \<Rightarrow> error + (fl \<times> mat)" where
  "ConLoss_forward base_temperature confidence outputs features Y index =
     (let batch_size = length Y;
          temperature = Fin (1 / 10);
          contrast_count = length (hd features);
          C = length (hd Y)
      in
      if batch_size = 0 \<or> contrast_count = 0 \<or> C = 0
         \<or> \<not> is_shape batch_size contrast_count features
         \<or> \<not> is_shape batch_size C Y
         \<or> \<not> is_shape batch_size C (take batch_size outputs)
      then Inl Torch_error
      else
        let contrast_feature = concat (map (\<lambda>v. map (\<lambda>f. f ! v) features) [0..<contrast_count]);
            anchor_feature = contrast_feature;
            anchor_count = contrast_count;
            anchor_dot_contrast =
              map (map (\<lambda>x. x / temperature)) (matmul_T anchor_feature contrast_feature);
            logits_max = map row_max anchor_dot_contrast;
            logits = map2 (\<lambda>r m. map (\<lambda>x. x - m) r) anchor_dot_contrast logits_max;
            output_sm = map softmax (take batch_size outputs);
            output_sm_d = output_sm;
            target_predict = map argmax (mat_mul output_sm_d Y);
            mask_logits = replicate batch_size (replicate batch_size (0::fl));
            pos_set = nonzero_ones Y
        in case ConLoss_mask_logits confidence target_predict pos_set mask_logits of
             Inl e \<Rightarrow> Inl e
           | Inr mask_logits \<Rightarrow>
               let mask_logits = repeat anchor_count contrast_count mask_logits;
                   K = batch_size * anchor_count;
                   logits_mask = map (\<lambda>i. map (\<lambda>j. if j = i then (0::fl) else 1) [0..<K]) [0..<K];
                   mask_logits = mat_mul mask_logits logits_mask;
                   exp_logits = mat_mul logits_mask (map (map fexp) logits);
                   log_prob = map2 (\<lambda>r e. map (\<lambda>x. x - flog (sum_list e)) r) logits exp_logits;
                   mean_log_prob_pos = map sum_list (mat_mul mask_logits log_prob)
               in if base_temperature = Fin 0 then Inl ZeroDivisionError
                  else
                    let loss_con_m =
                          map (\<lambda>x. (- (temperature / base_temperature)) * x) mean_log_prob_pos;
                        loss_con = mean loss_con_m;
                        new_target = revisedY Y output_sm_d
                    in Inr (loss_con, new_target))"

section \<open>PaPiLoss\<close>

text \<open>\<^verbatim>\<open>torch.log_softmax\<close> along a row, in the shifted form that torch computes.\<close>

definition log_softmax :: "vec \<Rightarrow> vec" where
  "log_softmax r =
     (let s = map (\<lambda>x. x - row_max r) r in map (\<lambda>x. x - flog (sum_list (map fexp s))) s)"

text \<open>
  \<^verbatim>\<open>xs[idx]\<close> for a one-dimensional index tensor: the entries (or rows) at the
  positions of \<open>idx\<close>. A negative index counts from the end; an index out of range raises.
\<close>

fun index_select :: "'a list \<Rightarrow> int list \<Rightarrow> error + 'a list" where
  "index_select xs [] = Inr []"
| "index_select xs (i # idx) =
     (let n = int (length xs); j = (if i < 0 then i + n else i) in
      if 0 \<le> j \<and> j < n then
        (case index_select xs idx of Inl e \<Rightarrow> Inl e | Inr ys \<Rightarrow> Inr (xs ! nat j # ys))
      else Inl Torch_error)"

text \<open>
  \<^verbatim>\<open>PaPiLoss.forward\<close>. The similarity criterion is the caller's: any function of the
  log-probabilities and the target that returns a scalar.
\<close>

definition PaPiLoss_forward ::
    "mat \<Rightarrow> mat \<Rightarrow> mat \<Rightarrow> mat \<Rightarrow> int list \<Rightarrow> fl \<Rightarrow> int list \<Rightarrow> (mat \<Rightarrow> mat \<Rightarrow> fl)
       \<Rightarrow> error + (fl \<times> fl)" where
  "PaPiLoss_forward cls_out_1 logits_prot_1_mix logits_prot_2_mix confidence idx_rp Lambda index
       sim_criterion =
     (let y_pred_1_probas = map softmax cls_out_1;
          prot_pred_1_mix_probas_log = map log_softmax (map (map (\<lambda>x. x / Fin (3 / 10))) logits_prot_1_mix);
          prot_pred_2_mix_probas_log = map log_softmax (map (map (\<lambda>x. x / Fin (3 / 10))) logits_prot_2_mix)
      in
      case index_select confidence index of
        Inl e \<Rightarrow> Inl e
      | Inr soft_positive_label_target1 \<Rightarrow>
          (case index_select index idx_rp of
             Inl e \<Rightarrow> Inl e
           | Inr index_rp \<Rightarrow>
               (case index_select confidence index_rp of
                  Inl e \<Rightarrow> Inl e
                | Inr soft_positive_label_target1_rp \<Rightarrow>
                    if \<not> is_shape (length cls_out_1) (length (hd confidence)) soft_positive_label_target1
                       \<or> \<not> is_shape (length cls_out_1) (length (hd confidence)) cls_out_1
                    then Inl Torch_error
                    else
                      let cls_loss_all_1 =
                            mat_mul soft_positive_label_target1 (map (map flog) y_pred_1_probas);
                          cls_loss_1 = - mean (map sum_list cls_loss_all_1);
                          sim_loss_2_1 =
                            Lambda * sim_criterion prot_pred_1_mix_probas_log soft_positive_label_target1
                            + (1 - Lambda) * sim_criterion prot_pred_1_mix_probas_log soft_positive_label_target1_rp;
                          sim_loss_2_2 =
                            Lambda * sim_criterion prot_pred_2_mix_probas_log soft_positive_label_target1
                            + (1 - Lambda) * sim_criterion prot_pred_2_mix_probas_log soft_positive_label_target1_rp;
                          sim_loss_2 = sim_loss_2_1 + sim_loss_2_2
                      in Inr (cls_loss_1, sim_loss_2))))"

section \<open>InfoNCE\<close>

text \<open>
  \<^verbatim>\<open>InfoNCE.forward\<close>. \<^verbatim>\<open>F.cosine_similarity\<close> is torch's; it enters as the
  parameter \<open>cosine_similarity\<close>, a function of two embedding vectors. The two batches
  have the same number of rows.
\<close>

definition InfoNCE_forward ::
    "(vec \<Rightarrow> vec \<Rightarrow> fl) \<Rightarrow> fl \<Rightarrow> mat \<Rightarrow> mat \<Rightarrow> error + fl" where
  "InfoNCE_forward cosine_similarity temperature z_i z_j =
     (let batch_size = length z_i in
      if length z_j \<noteq> batch_size then Inl Torch_error
      else
        let z = z_i @ z_j;
            similarity = map (\<lambda>a. map (\<lambda>b. cosine_similarity a b) z) z;
            sim_ij = map (\<lambda>k. similarity ! k ! (k + batch_size)) [0..<batch_size];
            sim_ji = map (\<lambda>k. similarity ! (k + batch_size) ! k) [0..<batch_size];
            positives = sim_ij @ sim_ji;
            mask' = map (\<lambda>i. map (\<lambda>j. if i = j then (0::fl) else 1) [0..<batch_size * 2])
                      [0..<batch_size * 2];
            numerator = map (\<lambda>p. fexp (p / temperature)) positives;
            denominator = mat_mul mask' (map (map (\<lambda>s. fexp (s / temperature))) similarity);
            all_losses = map2 (\<lambda>n d. - flog (n / d)) numerator (map sum_list denominator);
            loss = sum_list all_losses / Fin (real (2 * batch_size))
        in Inr loss)"

section \<open>Predicates and reference forms of the statements\<close>

text \<open>
  Classes of tensor entries: the finite non-negative ones, and the values that an
  exponential can take. \<open>the_fin\<close> reads a finite entry.
\<close>

fun nonneg_fl :: "fl \<Rightarrow> bool" where
  "nonneg_fl (Fin a) = (0 \<le> a)"
| "nonneg_fl x = False"

fun exp_like :: "fl \<Rightarrow> bool" where
  "exp_like (Fin a) = (0 \<le> a)"
| "exp_like NInf = False"
| "exp_like x = True"

fun the_fin :: "fl \<Rightarrow> real" where
  "the_fin (Fin a) = a"
| "the_fin x = 0"

text \<open>
  The aggregate that the specification describes for InfoNCE2: the number of positives of
  row \<open>i\<close>, the loss of row \<open>i\<close> (the negated mean of the log-probabilities over its
  positives, scaled by the temperature on request), and the mean of the row losses over
  the rows that have positives.
\<close>

definition InfoNCE2_num_positives :: "mat \<Rightarrow> nat \<Rightarrow> fl" where
  "InfoNCE2_num_positives m i = sum_list (InfoNCE2_positives_mask (length m) m ! i)"

definition InfoNCE2_row_loss :: "fl \<Rightarrow> bool \<Rightarrow> mat \<Rightarrow> mat \<Rightarrow> nat \<Rightarrow> fl" where
  "InfoNCE2_row_loss temperature scale_by_temperature features m i =
     (let logits = InfoNCE2_logits temperature features;
          positives_mask = InfoNCE2_positives_mask (length m) m;
          log_probs = InfoNCE2_log_probs logits (InfoNCE2_denominator logits m positives_mask);
          l = - (sum_list (map2 (*) (log_probs ! i) (positives_mask ! i))
                 / InfoNCE2_num_positives m i)
      in if scale_by_temperature then l * temperature else l)"

definition InfoNCE2_mean_over_rows_with_positives :: "fl \<Rightarrow> bool \<Rightarrow> mat \<Rightarrow> mat \<Rightarrow> fl" where
  "InfoNCE2_mean_over_rows_with_positives temperature scale_by_temperature features m =
     mean (map (InfoNCE2_row_loss temperature scale_by_temperature features m)
             (filter (\<lambda>i. fl_less 0 (InfoNCE2_num_positives m i)) [0..<length features]))"

text \<open>
  For InfoNCE: a batch reordered by a list of positions, and the loss of row \<open>k\<close> of the
  concatenated batch \<open>z\<close>, whose positive is the row \<open>batch_size\<close> places away.
\<close>

definition permute :: "nat list \<Rightarrow> 'a list \<Rightarrow> 'a list" where
  "permute p xs = map (\<lambda>k. xs ! k) p"

definition InfoNCE_row_loss :: "(vec \<Rightarrow> vec \<Rightarrow> fl) \<Rightarrow> fl \<Rightarrow> mat \<Rightarrow> nat \<Rightarrow> nat \<Rightarrow> fl" where
  "InfoNCE_row_loss cosine_similarity temperature z batch_size k =
     - flog (fexp (cosine_similarity (z ! k)
                     (z ! (if k < batch_size then k + batch_size else k - batch_size)) / temperature)
             / sum_list (map (\<lambda>c. (if k = c then 0 else 1)
                                    * fexp (cosine_similarity (z ! k) (z ! c) / temperature))
                          [0..<length z]))"

section \<open>Arithmetic of tensor entries\<close>

lemma fl_zero [simp]: "(0::fl) = Fin 0"
  by (simp add: zero_fl_def)

lemma fl_one [simp]: "(1::fl) = Fin 1"
  by (simp add: one_fl_def)

lemma fl_minus: "x - y = x + (- y)" for x y :: fl
  by (simp add: minus_fl_def)

lemma fl_mult_one: "x * Fin 1 = x"
  by (cases x) simp_all

lemma sum_list_zeros: "sum_list (replicate n (Fin 0)) = Fin 0"
  by (induction n) simp_all

lemma map2_mult_ones:
  "length w = length xs \<Longrightarrow> list_all (\<lambda>x. x = Fin 1) w \<Longrightarrow> map2 (*) xs w = xs"
  by (induction xs w rule: list_induct2') (simp_all add: fl_mult_one)

lemma length_matmul_T [simp]: "length (matmul_T a b) = length a"
  by (simp add: matmul_T_def)

lemmas tensor_defs = fl_minus eye_def is_shape_def matmul_T_def dot_def row_max_def fl_max_def isnan_def
  mat_sub_def mat_mul_def ones_like_def mean_def

lemmas InfoNCE2_defs = InfoNCE2_forward_def InfoNCE2_check_input_def InfoNCE2_loss_def
  InfoNCE2_logits_def InfoNCE2_positives_mask_def InfoNCE2_denominator_def InfoNCE2_kept_def
  InfoNCE2_log_probs_def

lemmas SupConLoss_defs = SupConLoss_supervised_def SupConLoss_mean_log_prob_pos_def
  SupConLoss_logits_mask_def

lemmas ConLoss_defs = ConLoss_forward_def softmax_def argmax_def nonzero_ones_def repeat_def
  revisedY_def

section \<open>InfoNCE2: rejected calls\<close>

text \<open>
  C4. InfoNCE2 rejects every call in which both labels and mask are supplied, and every
  call in which the number of labels differs from the batch size. The rejection is the
  result of the input check, which reads the batch size, the labels and the mask only: it
  is returned for every temperature and every feature tensor, whatever the logits computed
  from them would be.
\<close>

theorem InfoNCE2_rejects_before_computation:
  "InfoNCE2_check_input (length features) (Some labels) (Some m)
     = Inl Cannot_define_both_labels_and_mask
   \<and> InfoNCE2_forward temperature scale_by_temperature features (Some labels) (Some m)
     = Inl Cannot_define_both_labels_and_mask
   \<and> (length labels \<noteq> length features \<longrightarrow>
        InfoNCE2_check_input (length features) (Some labels) None
          = Inl Num_of_labels_does_not_match_num_of_features
      \<and> InfoNCE2_forward temperature scale_by_temperature features (Some labels) None
          = Inl Num_of_labels_does_not_match_num_of_features)"
  by (simp add: InfoNCE2_forward_def InfoNCE2_check_input_def)

theorem InfoNCE2_rejects_before_computation_witness:
  "InfoNCE2_forward NaN True [[NaN, PInf], [Fin 0, Fin 1]] (Some [7]) (Some [[Fin 1]])
     = Inl Cannot_define_both_labels_and_mask
   \<and> length [7::int] \<noteq> length [[NaN, PInf], [Fin 0, Fin 1]]
   \<and> InfoNCE2_forward NaN True [[NaN, PInf], [Fin 0, Fin 1]] (Some [7]) None
          = Inl Num_of_labels_does_not_match_num_of_features"
  using InfoNCE2_rejects_before_computation
          [of "[[NaN, PInf], [Fin 0, Fin 1]]" "[7]" "[[Fin 1]]" NaN True]
  by simp

section \<open>InfoNCE2: the default mask\<close>

lemma default_positives_mask:
  "InfoNCE2_positives_mask n (eye n) = replicate n (replicate n (Fin 0))"
  by (simp add: list_eq_iff_nth_eq InfoNCE2_positives_mask_def tensor_defs Let_def)

lemma kept_no_positives:
  "InfoNCE2_kept lp (replicate n (replicate k (Fin 0))) = []"
  by (auto simp add: InfoNCE2_kept_def Let_def sum_list_zeros filter_empty_conv
      dest!: set_zip_rightD)

lemma InfoNCE2_default_orthogonal_returns:
  "\<exists>loss. InfoNCE2_forward (Fin 1) False [[Fin 1, Fin 0], [Fin 0, Fin 1]] None None = Inr loss"
  by (simp add: InfoNCE2_defs tensor_defs Let_def upt_conv_Cons add_pos_pos)

text \<open>
  C1. The code does not do what the claim says. Called with neither labels nor mask,
  InfoNCE2 never returns a loss value: whenever the call returns, the result is NaN. The
  default mask is the identity, lines 60 and 61 take the self-pair out of the positives,
  so no row has a positive, line 71 keeps no row and line 77 is the mean of an empty
  tensor. This holds for every feature batch and temperature, whatever the arithmetic
  of the logits gives. At the two orthogonal unit vectors and temperature 1 the call
  returns NaN, where the claim expects \<open>log 2\<close>.
\<close>

theorem InfoNCE2_default_returns_only_nan:
  assumes "InfoNCE2_forward temperature scale_by_temperature features None None = Inr loss"
  shows "loss = NaN"
proof -
  have "InfoNCE2_kept lp (InfoNCE2_positives_mask (length features) (eye (length features))) = []"
    for lp
    by (simp add: default_positives_mask kept_no_positives)
  then show ?thesis
    using assms
    by (auto simp add: InfoNCE2_forward_def InfoNCE2_check_input_def InfoNCE2_loss_def Let_def
        mean_def split: if_splits)
qed

theorem InfoNCE2_default_returns_only_nan_witness:
  "InfoNCE2_forward (Fin 1) False [[Fin 1, Fin 0], [Fin 0, Fin 1]] None None = Inr NaN
   \<and> NaN \<noteq> Fin (ln 2)"
proof -
  from InfoNCE2_default_orthogonal_returns obtain loss where
    r: "InfoNCE2_forward (Fin 1) False [[Fin 1, Fin 0], [Fin 0, Fin 1]] None None = Inr loss"
    by blast
  from InfoNCE2_default_returns_only_nan [OF r] r show ?thesis
    by simp
qed

section \<open>SupConLoss: weights and zero-positive anchors\<close>

text \<open>
  C7. In supervised mode, a weights vector with one entry for each anchor, every entry 1,
  gives the same result as no weights.
\<close>

theorem SupConLoss_unit_weights:
  assumes "length weights = nat batch_size" and "list_all (\<lambda>x. x = Fin 1) weights"
  shows "SupConLoss_supervised temperature base_temperature features m batch_size (Some weights)
         = SupConLoss_supervised temperature base_temperature features m batch_size None"
proof -
  have "length (SupConLoss_mean_log_prob_pos temperature features m (nat batch_size))
          = nat batch_size"
    if "is_shape (nat batch_size) (length features) m" "nat batch_size \<le> length features"
    using that
    by (simp add: SupConLoss_mean_log_prob_pos_def SupConLoss_logits_mask_def Let_def
        is_shape_def mat_mul_def)
  then show ?thesis using assms
    by (auto simp add: SupConLoss_supervised_def Let_def map2_mult_ones)
qed

theorem SupConLoss_unit_weights_witness:
  "\<exists>v. SupConLoss_supervised (Fin (7 / 100)) (Fin (7 / 100)) [[Fin 1], [Fin 1]]
          [[Fin 1, Fin 1], [Fin 1, Fin 1]] 2 (Some [Fin 1, Fin 1]) = Inr (Fin v)
      \<and> SupConLoss_supervised (Fin (7 / 100)) (Fin (7 / 100)) [[Fin 1], [Fin 1]]
          [[Fin 1, Fin 1], [Fin 1, Fin 1]] 2 None = Inr (Fin v)"
proof -
  have "\<exists>v. SupConLoss_supervised (Fin (7 / 100)) (Fin (7 / 100)) [[Fin 1], [Fin 1]]
          [[Fin 1, Fin 1], [Fin 1, Fin 1]] 2 None = Inr (Fin v)"
    by (simp add: SupConLoss_defs tensor_defs Let_def upt_conv_Cons)
  then show ?thesis
    using SupConLoss_unit_weights [of "[Fin 1, Fin 1]" 2 "Fin (7 / 100)" "Fin (7 / 100)"
        "[[Fin 1], [Fin 1]]" "[[Fin 1, Fin 1], [Fin 1, Fin 1]]"]
    by simp
qed

text \<open>
  C9. In supervised mode there is an input with an anchor whose row of the positive mask
  is zero once the self-pair is excluded; the mean log-probability of that anchor is a
  division of zero by zero, and the returned loss is NaN. Here each of two samples is the
  only positive of itself.
\<close>

theorem SupConLoss_zero_positive_row_not_finite:
  "\<exists>features m.
     sum_list (mat_mul m (SupConLoss_logits_mask 2 2) ! 0) = Fin 0
   \<and> SupConLoss_mean_log_prob_pos (Fin (7 / 100)) features m 2 ! 0 = NaN
   \<and> SupConLoss_supervised (Fin (7 / 100)) (Fin (7 / 100)) features m 2 None = Inr NaN"
proof -
  let ?x = "[[Fin 1, Fin 0], [Fin 0, Fin 1]]"
  have "sum_list (mat_mul ?x (SupConLoss_logits_mask 2 2) ! 0) = Fin 0
      \<and> SupConLoss_mean_log_prob_pos (Fin (7 / 100)) ?x ?x 2 ! 0 = NaN
      \<and> SupConLoss_supervised (Fin (7 / 100)) (Fin (7 / 100)) ?x ?x 2 None = Inr NaN"
    by (simp add: SupConLoss_defs tensor_defs Let_def upt_conv_Cons add_pos_pos)
  then show ?thesis by blast
qed

section \<open>ConLoss: the refined target\<close>

lemma ConLoss_new_target:
  "ConLoss_forward bt conf outputs features Y index = Inr (l, t)
   \<Longrightarrow> t = revisedY Y (map softmax (take (length Y) outputs))"
  by (auto simp add: ConLoss_forward_def Let_def split: if_splits sum.splits)

lemma ConLoss_mask_logits_in_range:
  "\<forall>(i, j) \<in> set pos_set. i < length conf \<and> j < length (conf ! i)
   \<Longrightarrow> \<exists>m. ConLoss_mask_logits conf tp pos_set ml = Inr m"
  by (induction conf tp pos_set ml rule: ConLoss_mask_logits.induct) (auto simp add: Let_def)

lemma nonzero_ones_in_range:
  "(i, j) \<in> set (nonzero_ones Y) \<Longrightarrow> i < length Y \<and> j < length (Y ! i)"
  by (auto simp add: nonzero_ones_def)

lemma revisedY_shape:
  "is_shape n c Y \<Longrightarrow> is_shape n c sm \<Longrightarrow> is_shape n c (revisedY Y sm)"
  by (auto simp add: is_shape_def revisedY_def mat_mul_def Let_def list_all_iff
      elim!: in_set_zipE)

lemma softmax_length [simp]: "length (softmax r) = length r"
  by (simp add: softmax_def Let_def)

lemma softmax_shape: "is_shape n c xs \<Longrightarrow> is_shape n c (map softmax xs)"
  by (auto simp add: is_shape_def list_all_iff)

lemma ConLoss_example_1:
  "ConLoss_forward (Fin (7 / 100)) [[Fin (1 / 2), Fin (1 / 2)], [Fin 0, Fin 1]]
     [[Fin 0, Fin 0], [Fin 0, Fin 0]] [[[Fin 1, Fin 0]], [[Fin 0, Fin 1]]]
     [[Fin 1, Fin 1], [Fin 0, Fin 1]] [5, 6]
   = Inr (Fin 0, [[Fin (1 / 2), Fin (1 / 2)], [Fin 0, Fin 1]])"
  by (simp add: ConLoss_defs tensor_defs Let_def upt_conv_Cons)

lemma ConLoss_example_2:
  "ConLoss_forward (Fin (7 / 100)) [[Fin 1, Fin 0], [Fin 1, Fin 0]]
     [[Fin 0, Fin 0], [Fin 0, Fin 0]] [[[Fin 1, Fin 0]], [[Fin 0, Fin 1]]]
     [[Fin 1, Fin 1], [Fin 0, Fin 1]] [5, 6]
   = Inr (Fin 0, [[Fin (1 / 2), Fin (1 / 2)], [Fin 0, Fin 1]])"
  by (simp add: ConLoss_defs tensor_defs Let_def upt_conv_Cons)

text \<open>
  C10. The refined target does not depend on the confidence: two calls that differ only
  in the confidence and both return, return the same refined target.
\<close>

theorem ConLoss_new_target_ignores_confidence:
  assumes "ConLoss_forward bt c1 outputs features Y index = Inr (l1, t1)"
      and "ConLoss_forward bt c2 outputs features Y index = Inr (l2, t2)"
  shows "t1 = t2"
  using assms [THEN ConLoss_new_target] by simp

theorem ConLoss_new_target_ignores_confidence_witness:
  "\<exists>l1 t1 l2 t2.
     ConLoss_forward (Fin (7 / 100)) [[Fin (1 / 2), Fin (1 / 2)], [Fin 0, Fin 1]]
       [[Fin 0, Fin 0], [Fin 0, Fin 0]] [[[Fin 1, Fin 0]], [[Fin 0, Fin 1]]]
       [[Fin 1, Fin 1], [Fin 0, Fin 1]] [5, 6] = Inr (l1, t1)
   \<and> ConLoss_forward (Fin (7 / 100)) [[Fin 1, Fin 0], [Fin 1, Fin 0]]
       [[Fin 0, Fin 0], [Fin 0, Fin 0]] [[[Fin 1, Fin 0]], [[Fin 0, Fin 1]]]
       [[Fin 1, Fin 1], [Fin 0, Fin 1]] [5, 6] = Inr (l2, t2)
   \<and> t1 = t2"
  using ConLoss_new_target_ignores_confidence [OF ConLoss_example_1 ConLoss_example_2]
    ConLoss_example_1 ConLoss_example_2
  by blast

text \<open>
  C3. When a call returns, the call with the returned refined target as confidence and
  the other arguments unchanged returns too, with the same refined target. This holds
  whether or not the predicted labels match the labels that the confidence selects.
\<close>

theorem ConLoss_new_target_fixed_point:
  assumes "ConLoss_forward bt conf outputs features Y index = Inr (l, t)"
  shows "\<exists>l'. ConLoss_forward bt t outputs features Y index = Inr (l', t)"
proof -
  let ?n = "length Y" and ?c = "length (hd Y)"
  have sh: "is_shape ?n ?c Y" "is_shape ?n ?c (take ?n outputs)" and bt: "bt \<noteq> Fin 0"
    using assms by (auto simp add: ConLoss_forward_def Let_def split: if_splits sum.splits)
  have t: "t = revisedY Y (map softmax (take ?n outputs))"
    using assms by (rule ConLoss_new_target)
  have "is_shape ?n ?c t"
    unfolding t using sh by (intro revisedY_shape softmax_shape)
  moreover have "\<And>i. i < ?n \<Longrightarrow> length (Y ! i) = ?c"
    using sh(1) by (simp add: is_shape_def list_all_length)
  ultimately have "\<forall>(i, j) \<in> set (nonzero_ones Y). i < length t \<and> j < length (t ! i)"
    by (auto simp add: is_shape_def list_all_length dest!: nonzero_ones_in_range)
  then obtain m where
    "ConLoss_mask_logits t (map argmax (mat_mul (map softmax (take ?n outputs)) Y))
       (nonzero_ones Y) (replicate ?n (replicate ?n 0)) = Inr m"
    using ConLoss_mask_logits_in_range by blast
  then show ?thesis
    using assms bt t
    by (auto simp add: ConLoss_forward_def Let_def split: if_splits sum.splits)
qed

theorem ConLoss_new_target_fixed_point_witness:
  "\<exists>l'. ConLoss_forward (Fin (7 / 100)) [[Fin (1 / 2), Fin (1 / 2)], [Fin 0, Fin 1]]
     [[Fin 0, Fin 0], [Fin 0, Fin 0]] [[[Fin 1, Fin 0]], [[Fin 0, Fin 1]]]
     [[Fin 1, Fin 1], [Fin 0, Fin 1]] [5, 6]
   = Inr (l', [[Fin (1 / 2), Fin (1 / 2)], [Fin 0, Fin 1]])"
  using ConLoss_new_target_fixed_point [OF ConLoss_example_2]
  by simp

section \<open>ConLoss: the rows of the refined target\<close>

lemma nonneg_fl_iff: "nonneg_fl x \<longleftrightarrow> (x = Fin (the_fin x) \<and> 0 \<le> the_fin x)"
  by (cases x) simp_all

lemma nonneg_div: "nonneg_fl y \<Longrightarrow> 0 < s \<Longrightarrow> nonneg_fl (y / Fin s)"
  by (cases y) simp_all

lemma nonneg_mult: "nonneg_fl x \<Longrightarrow> nonneg_fl y \<Longrightarrow> nonneg_fl (x * y)"
  by (cases x; cases y) simp_all

lemma exp_like_fexp: "exp_like (fexp x)"
  by (cases x) simp_all

lemma exp_like_add: "exp_like x \<Longrightarrow> exp_like y \<Longrightarrow> exp_like (x + y)"
  by (cases x; cases y) simp_all

lemma exp_like_sum_list: "list_all exp_like xs \<Longrightarrow> exp_like (sum_list xs)"
  by (induction xs) (simp_all add: exp_like_add)

lemma exp_like_sum_Fin:
  "list_all exp_like xs \<Longrightarrow> sum_list xs = Fin s \<Longrightarrow> list_all nonneg_fl xs"
proof (induction xs arbitrary: s)
  case Nil
  then show ?case by simp
next
  case (Cons x xs)
  then have "exp_like x" "exp_like (sum_list xs)" "x + sum_list xs = Fin s"
    by (simp_all add: exp_like_sum_list)
  then obtain a b where "x = Fin a" "sum_list xs = Fin b" "0 \<le> a"
    by (cases x; cases "sum_list xs") simp_all
  with Cons show ?case by simp
qed

lemma nonneg_sum_list:
  "list_all nonneg_fl xs \<Longrightarrow> sum_list xs = Fin (sum_list (map the_fin xs))"
  by (induction xs) (auto simp add: nonneg_fl_iff, metis plus_fl.simps(1))

lemma nonneg_member_le_sum:
  "list_all nonneg_fl xs \<Longrightarrow> x \<in> set xs \<Longrightarrow> the_fin x \<le> sum_list (map the_fin xs)"
proof (induction xs)
  case Nil
  then show ?case by simp
next
  case (Cons y ys)
  have "0 \<le> sum_list (map the_fin ys)"
    using Cons.prems(1) by (intro sum_list_nonneg) (auto simp add: list_all_iff nonneg_fl_iff)
  moreover have "0 \<le> the_fin y"
    using Cons.prems(1) by (simp add: nonneg_fl_iff)
  ultimately show ?case
    using Cons by auto
qed

lemma normalised_sum:
  assumes "list_all nonneg_fl r" and "x \<in> set r" and "fl_less (Fin 0) x"
  shows "sum_list (map (\<lambda>x. x / sum_list r) r) = Fin 1"
proof -
  let ?s = "sum_list (map the_fin r)"
  have s: "sum_list r = Fin ?s"
    using assms(1) by (rule nonneg_sum_list)
  have "x = Fin (the_fin x)"
    using assms(1,2) by (auto simp add: list_all_iff nonneg_fl_iff)
  with assms(3) have "0 < the_fin x"
    by (metis fl_less.simps(1))
  with nonneg_member_le_sum[OF assms(1,2)] have pos: "0 < ?s"
    by simp
  have div: "y / Fin ?s = Fin (the_fin y / ?s)" if "y \<in> set r" for y
  proof -
    from that assms(1) have "y = Fin (the_fin y)"
      by (auto simp add: list_all_iff nonneg_fl_iff)
    then show ?thesis
      using pos by (metis divide_fl.simps(1) less_irrefl)
  qed
  have "map (\<lambda>x. x / sum_list r) r = map Fin (map (\<lambda>y. the_fin y / ?s) r)"
    by (simp add: s div)
  moreover have "list_all nonneg_fl (map Fin (map (\<lambda>y. the_fin y / ?s) r))"
    using assms(1) pos by (auto simp add: list_all_iff nonneg_fl_iff)
  ultimately have "sum_list (map (\<lambda>x. x / sum_list r) r)
      = Fin (sum_list (map the_fin (map Fin (map (\<lambda>y. the_fin y / ?s) r))))"
    by (simp only: nonneg_sum_list)
  also have "map the_fin (map Fin (map (\<lambda>y. the_fin y / ?s) r)) = map (\<lambda>y. the_fin y * inverse ?s) r"
    by (simp add: divide_inverse)
  also have "sum_list (map (\<lambda>y. the_fin y * inverse ?s) r) = ?s * inverse ?s"
    by (simp only: sum_list_mult_const)
  finally show ?thesis
    using pos by simp
qed

lemma softmax_positive_entry:
  assumes "x \<in> set (softmax r)" and "fl_less (Fin 0) x"
  shows "list_all nonneg_fl (softmax r)"
proof -
  let ?e = "map (\<lambda>x. fexp (x - row_max r)) r"
  have sm: "softmax r = map (\<lambda>x. x / sum_list ?e) ?e"
    by (simp add: softmax_def Let_def)
  have el: "list_all exp_like ?e"
    by (simp add: list_all_iff exp_like_fexp)
  from assms(1) obtain y where y: "y \<in> set ?e" "x = y / sum_list ?e"
    unfolding sm by auto
  have "exp_like y" using y(1) by (auto simp add: exp_like_fexp)
  moreover have "exp_like (sum_list ?e)" using el by (rule exp_like_sum_list)
  ultimately obtain s where s: "sum_list ?e = Fin s" "0 \<le> s"
    using assms(2) y(2) by (cases y; cases "sum_list ?e") (auto split: if_splits)
  with el have nn: "list_all nonneg_fl ?e"
    using exp_like_sum_Fin by blast
  have "s \<noteq> 0"
  proof
    assume "s = 0"
    with s nonneg_sum_list[OF nn] have "sum_list (map the_fin ?e) = 0" by simp
    moreover have "\<forall>z \<in> set (map the_fin ?e). 0 \<le> z"
      using nn by (auto simp add: list_all_iff nonneg_fl_iff)
    ultimately have "\<forall>z \<in> set (map the_fin ?e). z = 0"
      by (simp only: sum_list_nonneg_eq_0_iff)
    with y(1) have "the_fin y = 0" by auto
    moreover have "y = Fin (the_fin y)"
      using nn y(1) by (auto simp add: list_all_iff nonneg_fl_iff)
    ultimately have "x = NaN"
      using y(2) s \<open>s = 0\<close> by (metis divide_fl.simps(1))
    with assms(2) show False by simp
  qed
  with s have "0 < s" by simp
  then show ?thesis
    unfolding sm s using nn
    by (auto simp add: list_all_iff nonneg_div)
qed

lemma revisedY_row:
  "i < length Y \<Longrightarrow> i < length sm \<Longrightarrow>
   revisedY Y sm ! i = map (\<lambda>x. x / sum_list (map2 (*) (Y ! i) (sm ! i))) (map2 (*) (Y ! i) (sm ! i))"
  by (simp add: revisedY_def mat_mul_def Let_def)

text \<open>
  C2. Suppose ConLoss returns, the entries of the candidate matrix \<open>Y\<close> are finite and
  not negative (a candidate matrix holds zeros and ones), and in every row some class has
  a nonzero entry in \<open>Y\<close> and a softmax probability above \<open>1e-30\<close>, so that the
  probability is positive in single precision too, where the exponential of a large
  negative number is zero. Then the refined target has one row for each row of \<open>Y\<close>;
  each row is the elementwise product of the row of \<open>Y\<close> and the softmax of the row of
  the outputs, divided by the sum of that product; and each row sums to 1 within
  \<open>1e-6\<close> (the sum is exact in the model).
\<close>

theorem ConLoss_new_target_rows_sum_to_one:
  assumes ret: "ConLoss_forward bt conf outputs features Y index = Inr (loss_con, new_target)"
      and cand: "list_all (list_all nonneg_fl) Y"
      and pos: "\<forall>i < length Y. \<exists>j < length (Y ! i).
                  Y ! i ! j \<noteq> Fin 0 \<and> fl_less (Fin (1 / 10 ^ 30)) (softmax (outputs ! i) ! j)"
  shows "length new_target = length Y
       \<and> (\<forall>i < length Y.
            new_target ! i
              = map (\<lambda>x. x / sum_list (map2 (*) (Y ! i) (softmax (outputs ! i))))
                  (map2 (*) (Y ! i) (softmax (outputs ! i)))
          \<and> length (new_target ! i) = length (Y ! i)
          \<and> (\<exists>s. sum_list (new_target ! i) = Fin s \<and> \<bar>s - 1\<bar> \<le> 1 / 10 ^ 6))"
proof -
  let ?n = "length Y" and ?c = "length (hd Y)"
  let ?sm = "map softmax (take ?n outputs)"
  have sh: "is_shape ?n ?c Y" "is_shape ?n ?c (take ?n outputs)"
    using ret by (auto simp add: ConLoss_forward_def Let_def split: if_splits sum.splits)
  have t: "new_target = revisedY Y ?sm"
    using ret by (rule ConLoss_new_target)
  have len: "length new_target = ?n" "length ?sm = ?n"
    using sh by (simp_all add: t revisedY_def mat_mul_def Let_def is_shape_def)
  have row: "new_target ! i
              = map (\<lambda>x. x / sum_list (map2 (*) (Y ! i) (softmax (outputs ! i))))
                  (map2 (*) (Y ! i) (softmax (outputs ! i)))
          \<and> length (new_target ! i) = length (Y ! i)
          \<and> (\<exists>s. sum_list (new_target ! i) = Fin s \<and> \<bar>s - 1\<bar> \<le> 1 / 10 ^ 6)"
    if i: "i < ?n" for i
  proof -
    from i len have smi: "?sm ! i = softmax (outputs ! i)"
      by simp
    have li: "length (Y ! i) = ?c" "length (outputs ! i) = ?c"
      using sh i len by (auto simp add: is_shape_def list_all_length)
    from pos i obtain j where j: "j < length (Y ! i)" "Y ! i ! j \<noteq> Fin 0"
        "fl_less (Fin (1 / 10 ^ 30)) (softmax (outputs ! i) ! j)"
      by blast
    have j3: "fl_less (Fin 0) (softmax (outputs ! i) ! j)"
      using j(3) by (cases "softmax (outputs ! i) ! j") (simp_all add: less_trans [of 0 "1 / 10 ^ 30"])
    let ?r = "map2 (*) (Y ! i) (softmax (outputs ! i))"
    have eq: "new_target ! i = map (\<lambda>x. x / sum_list ?r) ?r"
      using i len smi by (simp add: t revisedY_row)
    have Yi: "list_all nonneg_fl (Y ! i)"
      using cand i by (simp add: list_all_length)
    have "softmax (outputs ! i) ! j \<in> set (softmax (outputs ! i))"
      using j(1) li by simp
    then have smn: "list_all nonneg_fl (softmax (outputs ! i))"
      using j3 by (rule softmax_positive_entry)
    have nn: "list_all nonneg_fl ?r"
      using Yi smn by (auto simp add: list_all_iff nonneg_mult elim!: in_set_zipE)
    have rj: "?r ! j = Y ! i ! j * softmax (outputs ! i) ! j" "j < length ?r"
      using j(1) li by simp_all
    have "nonneg_fl (Y ! i ! j)" "nonneg_fl (softmax (outputs ! i) ! j)"
      using Yi smn j(1) li by (simp_all add: list_all_length)
    with j(2) j3 have "fl_less (Fin 0) (?r ! j)"
      unfolding rj(1)
      by (cases "Y ! i ! j"; cases "softmax (outputs ! i) ! j") simp_all
    moreover have "?r ! j \<in> set ?r"
      using rj(2) by (rule nth_mem)
    ultimately have "sum_list (map (\<lambda>x. x / sum_list ?r) ?r) = Fin 1"
      using nn normalised_sum by blast
    then show ?thesis
      using li by (simp add: eq)
  qed
  show ?thesis
    using len(1) row by blast
qed

theorem ConLoss_new_target_rows_sum_to_one_witness:
  "ConLoss_forward (Fin (7 / 100)) [[Fin (1 / 2), Fin (1 / 2)], [Fin 0, Fin 1]]
       [[Fin 0, Fin 0], [Fin 0, Fin 0]] [[[Fin 1, Fin 0]], [[Fin 0, Fin 1]]]
       [[Fin 1, Fin 1], [Fin 0, Fin 1]] [5, 6]
     = Inr (Fin 0, [[Fin (1 / 2), Fin (1 / 2)], [Fin 0, Fin 1]])
   \<and> length [[Fin (1 / 2), Fin (1 / 2)], [Fin 0, Fin 1]]
       = length [[Fin 1, Fin 1], [Fin 0, Fin (1::real)]]
   \<and> map2 (*) [Fin 1, Fin 1] (softmax [Fin 0, Fin 0]) = [Fin (1 / 2), Fin (1 / 2)]
   \<and> map2 (*) [Fin 0, Fin 1] (softmax [Fin 0, Fin 0]) = [Fin 0, Fin (1 / 2)]
   \<and> sum_list [Fin (1 / 2), Fin (1 / 2)] = Fin 1
   \<and> sum_list [Fin 0, Fin 1] = Fin 1"
proof -
  let ?Y = "[[Fin 1, Fin 1], [Fin 0, Fin 1]]" and ?o = "[[Fin 0, Fin 0], [Fin 0, Fin 0]]"
  have 1: "list_all (list_all nonneg_fl) ?Y"
    by simp
  have sm: "softmax [Fin 0, Fin 0] = [Fin (1 / 2), Fin (1 / 2)]"
    by (simp add: softmax_def tensor_defs Let_def)
  have 2: "\<forall>i < length ?Y. \<exists>j < length (?Y ! i).
             ?Y ! i ! j \<noteq> Fin 0 \<and> fl_less (Fin (1 / 10 ^ 30)) (softmax (?o ! i) ! j)"
  proof (intro allI impI)
    fix i assume "i < length ?Y"
    then have "i = 0 \<or> i = 1" by auto
    then show "\<exists>j < length (?Y ! i).
             ?Y ! i ! j \<noteq> Fin 0 \<and> fl_less (Fin (1 / 10 ^ 30)) (softmax (?o ! i) ! j)"
      by (intro exI [of _ 1]) (auto simp add: sm)
  qed
  from ConLoss_new_target_rows_sum_to_one [OF ConLoss_example_1 1 2] ConLoss_example_1
  show ?thesis
    by (simp add: sm)
qed

section \<open>PaPiLoss: the similarity loss\<close>

text \<open>
  C8. When PaPiLoss returns, its second output is the sum over the two prototype
  branches of \<open>Lambda\<close> times the criterion of the branch's tempered log-softmax against
  the confidence rows at \<open>index\<close>, plus \<open>1 - Lambda\<close> times the criterion against the
  confidence rows at \<open>index[idx_rp]\<close>.
\<close>

theorem PaPiLoss_sim_loss:
  assumes "PaPiLoss_forward cls_out_1 logits_prot_1_mix logits_prot_2_mix confidence idx_rp Lambda
             index sim_criterion = Inr (cls_loss, sim_loss)"
  shows "\<exists>c index_rp c_rp.
           index_select confidence index = Inr c
         \<and> index_select index idx_rp = Inr index_rp
         \<and> index_select confidence index_rp = Inr c_rp
         \<and> sim_loss =
             (Lambda * sim_criterion
                  (map log_softmax (map (map (\<lambda>x. x / Fin (3 / 10))) logits_prot_1_mix)) c
              + (1 - Lambda) * sim_criterion
                  (map log_softmax (map (map (\<lambda>x. x / Fin (3 / 10))) logits_prot_1_mix)) c_rp)
           + (Lambda * sim_criterion
                  (map log_softmax (map (map (\<lambda>x. x / Fin (3 / 10))) logits_prot_2_mix)) c
              + (1 - Lambda) * sim_criterion
                  (map log_softmax (map (map (\<lambda>x. x / Fin (3 / 10))) logits_prot_2_mix)) c_rp)"
  using assms
  by (auto simp add: PaPiLoss_forward_def Let_def split: sum.splits if_splits)


lemma PaPiLoss_example:
  "PaPiLoss_forward [[Fin 0, Fin 0], [Fin 0, Fin 0]] [[Fin 0, Fin 0], [Fin 0, Fin 0]]
     [[Fin 3, Fin 3], [Fin 0, Fin 0]] [[Fin 1, Fin 0], [Fin 0, Fin 1], [Fin (1 / 2), Fin (1 / 2)]]
     [1, 0] (Fin (1 / 4)) [2, 0] (\<lambda>lp t. - sum_list (map sum_list (mat_mul t lp)))
   = Inr (Fin (ln 2), Fin (4 * ln 2))"
  by (simp add: PaPiLoss_forward_def softmax_def log_softmax_def tensor_defs Let_def ln_div)

theorem PaPiLoss_sim_loss_witness:
  "\<exists>cls_loss sim_loss.
     PaPiLoss_forward [[Fin 0, Fin 0], [Fin 0, Fin 0]] [[Fin 0, Fin 0], [Fin 0, Fin 0]]
       [[Fin 3, Fin 3], [Fin 0, Fin 0]] [[Fin 1, Fin 0], [Fin 0, Fin 1], [Fin (1 / 2), Fin (1 / 2)]]
       [1, 0] (Fin (1 / 4)) [2, 0] (\<lambda>lp t. - sum_list (map sum_list (mat_mul t lp)))
     = Inr (cls_loss, sim_loss)
   \<and> index_select [[Fin 1, Fin 0], [Fin 0, Fin 1], [Fin (1 / 2), Fin (1 / 2)]] [2, 0]
       = Inr [[Fin (1 / 2), Fin (1 / 2)], [Fin 1, Fin 0]]
   \<and> index_select [2, 0] [1, 0] = Inr [0, 2]
   \<and> index_select [[Fin 1, Fin 0], [Fin 0, Fin 1], [Fin (1 / 2), Fin (1 / 2)]] [0, 2]
       = Inr [[Fin 1, Fin 0], [Fin (1 / 2), Fin (1 / 2)]]
   \<and> sim_loss = Fin (4 * ln 2)"
  using PaPiLoss_sim_loss [OF PaPiLoss_example] PaPiLoss_example
  by simp

section \<open>InfoNCE2: rows without positives\<close>

lemma map2_map_right: "map2 f xs (map g xs) = map (\<lambda>x. f x (g x)) xs"
  by (induction xs) simp_all

lemma InfoNCE2_logits_rows:
  "InfoNCE2_logits temperature features =
     map (\<lambda>x. map (\<lambda>v. v - row_max (map (\<lambda>y. dot x y / temperature) features))
                  (map (\<lambda>y. dot x y / temperature) features)) features"
  by (simp add: InfoNCE2_logits_def matmul_T_def Let_def map2_map_right o_def)

lemma zip_nth_upt:
  "length xs = n \<Longrightarrow> length ys = n \<Longrightarrow> zip xs ys = map (\<lambda>i. (xs ! i, ys ! i)) [0..<n]"
  by (simp add: list_eq_iff_nth_eq)

lemma InfoNCE2_kept_index:
  assumes "length lp = n" and "length pm = n"
  shows "InfoNCE2_kept lp pm =
           map (\<lambda>i. (sum_list (map2 (*) (lp ! i) (pm ! i)), sum_list (pm ! i)))
             (filter (\<lambda>i. fl_less 0 (sum_list (pm ! i))) [0..<n])"
proof -
  have "zip (map sum_list (mat_mul lp pm)) (map sum_list pm)
          = map (\<lambda>i. (sum_list (map2 (*) (lp ! i) (pm ! i)), sum_list (pm ! i))) [0..<n]"
    using assms by (simp add: list_eq_iff_nth_eq mat_mul_def)
  then show ?thesis
    by (simp add: InfoNCE2_kept_def Let_def filter_map o_def)
qed

lemma length_InfoNCE2_positives_mask:
  "length m = n \<Longrightarrow> length (InfoNCE2_positives_mask n m) = n"
  by (simp add: InfoNCE2_positives_mask_def tensor_defs Let_def)

lemma length_InfoNCE2_log_probs:
  "length m = length features \<Longrightarrow>
   length (InfoNCE2_log_probs (InfoNCE2_logits T features)
      (InfoNCE2_denominator (InfoNCE2_logits T features) m (InfoNCE2_positives_mask (length features) m)))
     = length features"
  by (simp add: InfoNCE2_log_probs_def InfoNCE2_logits_rows InfoNCE2_denominator_def
      length_InfoNCE2_positives_mask mat_mul_def Let_def)

text \<open>
  C5. Suppose the input check passes with mask \<open>m\<close>, the batch is not empty, \<open>m\<close> has
  the batch's shape, and no log-probability is NaN (the check of line 68). Then InfoNCE2
  raises no error, whether or not some rows have zero positives, and returns the mean of
  the row losses over the rows whose number of positives is greater than zero: a row
  whose positive mask sums to zero enters neither the sum nor the count of that mean.
\<close>

theorem InfoNCE2_zero_positive_rows_excluded:
  assumes chk: "InfoNCE2_check_input (length features) labels mask' = Inr m"
      and ne: "features \<noteq> []"
      and shape: "is_shape (length features) (length features) m"
      and nonan: "\<not> list_ex (list_ex isnan)
                    (InfoNCE2_log_probs (InfoNCE2_logits temperature features)
                       (InfoNCE2_denominator (InfoNCE2_logits temperature features) m
                          (InfoNCE2_positives_mask (length features) m)))"
  shows "InfoNCE2_forward temperature scale_by_temperature features labels mask'
           = Inr (InfoNCE2_mean_over_rows_with_positives temperature scale_by_temperature
                    features m)
       \<and> (\<forall>i. InfoNCE2_num_positives m i = Fin 0 \<longrightarrow>
              i \<notin> set (filter (\<lambda>i. fl_less 0 (InfoNCE2_num_positives m i))
                           [0..<length features]))"
proof -
  let ?n = "length features"
  let ?logits = "InfoNCE2_logits temperature features"
  let ?pm = "InfoNCE2_positives_mask ?n m"
  let ?d = "InfoNCE2_denominator ?logits m ?pm"
  let ?lp = "InfoNCE2_log_probs ?logits ?d"
  have len: "length m = ?n"
    using shape by (simp add: is_shape_def)
  have kept: "InfoNCE2_kept ?lp ?pm =
           map (\<lambda>i. (sum_list (map2 (*) (?lp ! i) (?pm ! i)), sum_list (?pm ! i)))
             (filter (\<lambda>i. fl_less 0 (sum_list (?pm ! i))) [0..<?n])"
    using len
    by (intro InfoNCE2_kept_index length_InfoNCE2_log_probs length_InfoNCE2_positives_mask)
  have "InfoNCE2_loss temperature scale_by_temperature features m
          = Inr (InfoNCE2_mean_over_rows_with_positives temperature scale_by_temperature
                   features m)"
    using ne shape nonan
    by (simp add: InfoNCE2_loss_def InfoNCE2_mean_over_rows_with_positives_def
        InfoNCE2_row_loss_def [abs_def] InfoNCE2_num_positives_def Let_def kept len o_def)
  then show ?thesis
    by (simp add: InfoNCE2_forward_def chk)
qed

lemma InfoNCE2_example_labels:
  "InfoNCE2_forward (Fin 1) False [[Fin 1, Fin 0], [Fin 0, Fin 1], [Fin 1, Fin 0]] (Some [0, 1, 0]) None
     = Inr (Fin (ln (1 + exp (- 1) + 1 / 10 ^ 12)))"
  by (simp add: InfoNCE2_defs tensor_defs Let_def upt_conv_Cons add_pos_pos)

theorem InfoNCE2_zero_positive_rows_excluded_witness:
  "InfoNCE2_forward (Fin 1) False [[Fin 1, Fin 0], [Fin 0, Fin 1], [Fin 1, Fin 0]] (Some [0, 1, 0]) None
     = Inr (InfoNCE2_mean_over_rows_with_positives (Fin 1) False
              [[Fin 1, Fin 0], [Fin 0, Fin 1], [Fin 1, Fin 0]]
              [[Fin 1, Fin 0, Fin 1], [Fin 0, Fin 1, Fin 0], [Fin 1, Fin 0, Fin 1]])
   \<and> InfoNCE2_num_positives [[Fin 1, Fin 0, Fin 1], [Fin 0, Fin 1, Fin 0], [Fin 1, Fin 0, Fin 1]] 1 = Fin 0
   \<and> filter (\<lambda>i. fl_less 0 (InfoNCE2_num_positives
                [[Fin 1, Fin 0, Fin 1], [Fin 0, Fin 1, Fin 0], [Fin 1, Fin 0, Fin 1]] i)) [0..<3] = [0, 2]
   \<and> InfoNCE2_mean_over_rows_with_positives (Fin 1) False
              [[Fin 1, Fin 0], [Fin 0, Fin 1], [Fin 1, Fin 0]]
              [[Fin 1, Fin 0, Fin 1], [Fin 0, Fin 1, Fin 0], [Fin 1, Fin 0, Fin 1]]
       = Fin (ln (1 + exp (- 1) + 1 / 10 ^ 12))"
proof -
  let ?f = "[[Fin 1, Fin 0], [Fin 0, Fin 1], [Fin 1, Fin 0]]"
  let ?m = "[[Fin 1, Fin 0, Fin 1], [Fin 0, Fin 1, Fin 0], [Fin 1, Fin 0, Fin 1]]"
  have 1: "InfoNCE2_check_input (length ?f) (Some [0, 1, 0]) None = Inr ?m"
    by (simp add: InfoNCE2_check_input_def)
  have 2: "?f \<noteq> []" "is_shape (length ?f) (length ?f) ?m"
    by (simp_all add: is_shape_def)
  have 3: "\<not> list_ex (list_ex isnan)
              (InfoNCE2_log_probs (InfoNCE2_logits (Fin 1) ?f)
                 (InfoNCE2_denominator (InfoNCE2_logits (Fin 1) ?f) ?m
                    (InfoNCE2_positives_mask (length ?f) ?m)))"
    by (simp add: InfoNCE2_defs tensor_defs Let_def upt_conv_Cons add_pos_pos)
  have 4: "InfoNCE2_num_positives ?m 1 = Fin 0"
    "filter (\<lambda>i. fl_less 0 (InfoNCE2_num_positives ?m i)) [0..<3] = [0, 2]"
    by (simp_all add: InfoNCE2_num_positives_def InfoNCE2_positives_mask_def tensor_defs Let_def
        upt_conv_Cons)
  from InfoNCE2_zero_positive_rows_excluded [OF 1 2 3, of False] 4 InfoNCE2_example_labels
  show ?thesis by simp
qed

section \<open>InfoNCE: reordering the samples\<close>

lemma map2_upt:
  "map2 f (map g [0..<n]) (map h [0..<n]) = map (\<lambda>i. f (g i) (h i)) [0..<n]"
  by (simp add: list_eq_iff_nth_eq)

lemma InfoNCE_index_form:
  assumes "length z_j = length z_i"
  shows "InfoNCE_forward cs T z_i z_j =
           Inr (sum_list (map (InfoNCE_row_loss cs T (z_i @ z_j) (length z_i)) [0..<2 * length z_i])
                / Fin (real (2 * length z_i)))"
proof -
  define z where "z = z_i @ z_j"
  define n where "n = length z_i"
  have len: "length z = 2 * n"
    using assms by (simp add: z_def n_def)
  define sim where "sim = map (\<lambda>a. map (\<lambda>b. cs a b) z) z"
  define pos where "pos = map (\<lambda>k. sim ! k ! (k + n)) [0..<n] @ map (\<lambda>k. sim ! (k + n) ! k) [0..<n]"
  define msk where "msk = map (\<lambda>i. map (\<lambda>j. if i = j then (0::fl) else 1) [0..<n * 2]) [0..<n * 2]"
  have fwd: "InfoNCE_forward cs T z_i z_j =
      Inr (sum_list (map2 (\<lambda>n d. - flog (n / d)) (map (\<lambda>p. fexp (p / T)) pos)
                      (map sum_list (mat_mul msk (map (map (\<lambda>s. fexp (s / T))) sim))))
           / Fin (real (2 * n)))"
    by (simp only: InfoNCE_forward_def Let_def assms simp_thms if_False z_def n_def sim_def pos_def msk_def)
  have sim: "sim ! a ! b = cs (z ! a) (z ! b)" if "a < 2 * n" "b < 2 * n" for a b
    using that len by (simp add: sim_def)
  have pos: "pos = map (\<lambda>k. cs (z ! k) (z ! (if k < n then k + n else k - n))) [0..<2 * n]"
  proof (rule nth_equalityI)
    show "length pos = length (map (\<lambda>k. cs (z ! k) (z ! (if k < n then k + n else k - n))) [0..<2 * n])"
      by (simp add: pos_def)
  next
    fix i assume "i < length pos"
    then have i: "i < 2 * n" by (simp add: pos_def)
    show "pos ! i = map (\<lambda>k. cs (z ! k) (z ! (if k < n then k + n else k - n))) [0..<2 * n] ! i"
    proof (cases "i < n")
      case True
      then show ?thesis
        using i sim[of i "i + n"] by (simp add: pos_def nth_append)
    next
      case False
      moreover from False i have "i - n < n" by arith
      ultimately have "pos ! i = sim ! (i - n + n) ! (i - n)"
        by (simp add: pos_def nth_append)
      also have "\<dots> = cs (z ! i) (z ! (i - n))"
        using False i sim[of i "i - n"] by simp
      finally show ?thesis using False i by simp
    qed
  qed
  have E: "map (map (\<lambda>s. fexp (s / T))) sim
      = map (\<lambda>a. map (\<lambda>b. fexp (cs (z ! a) (z ! b) / T)) [0..<2 * n]) [0..<2 * n]"
    using len by (simp add: list_eq_iff_nth_eq sim_def)
  have den: "map sum_list (mat_mul msk (map (map (\<lambda>s. fexp (s / T))) sim)) =
      map (\<lambda>k. sum_list (map (\<lambda>c. (if k = c then 0 else 1) * fexp (cs (z ! k) (z ! c) / T)) [0..<2 * n])) [0..<2 * n]"
    unfolding E mat_mul_def msk_def by (simp add: list_eq_iff_nth_eq mult.commute[of _ 2] map2_upt)
  have "map2 (\<lambda>n d. - flog (n / d)) (map (\<lambda>p. fexp (p / T)) pos)
                      (map sum_list (mat_mul msk (map (map (\<lambda>s. fexp (s / T))) sim)))
        = map (InfoNCE_row_loss cs T z n) [0..<2 * n]"
    unfolding pos den using len
    by (simp add: list_eq_iff_nth_eq InfoNCE_row_loss_def)
  then show ?thesis
    unfolding fwd by (simp only: z_def n_def)
qed


lemma sum_list_mset_cong:
  fixes f :: "'a \<Rightarrow> fl"
  assumes "mset xs = mset ys"
  shows "sum_list (map f xs) = sum_list (map f ys)"
proof -
  have "sum_list (map f xs) = sum_mset (image_mset f (mset xs))"
    by (simp flip: sum_mset_sum_list)
  also have "\<dots> = sum_mset (image_mset f (mset ys))"
    by (simp only: assms)
  also have "\<dots> = sum_list (map f ys)"
    by (simp flip: sum_mset_sum_list)
  finally show ?thesis .
qed

lemma sum_list_reindex:
  fixes g :: "nat \<Rightarrow> fl"
  assumes "mset s = mset [0..<m]"
  shows "sum_list (map (\<lambda>c. g (s ! c)) [0..<m]) = sum_list (map g [0..<m])"
proof -
  have "length s = m"
    using assms by (metis length_upt minus_nat.diff_0 size_mset)
  then have "map (\<lambda>c. g (s ! c)) [0..<m] = map g s"
    by (simp add: list_eq_iff_nth_eq)
  then show ?thesis
    using assms by (simp add: sum_list_mset_cong [of s "[0..<m]"])
qed

lemma InfoNCE_row_loss_permuted:
  assumes perm: "mset s = mset [0..<length z]"
      and k: "k < length z"
      and partner: "(if k < n then k + n else k - n) < length z"
         "s ! (if k < n then k + n else k - n) = (if s ! k < n then s ! k + n else s ! k - n)"
  shows "InfoNCE_row_loss cs T (map (\<lambda>i. z ! i) s) n k = InfoNCE_row_loss cs T z n (s ! k)"
proof -
  let ?m = "length z"
  have len: "length s = ?m"
    using perm by (metis length_upt minus_nat.diff_0 size_mset)
  have dist: "distinct s"
    using perm by (metis distinct_upt mset_eq_imp_distinct_iff)
  define g where "g = (\<lambda>c'. (if s ! k = c' then 0 else 1) * fexp (cs (z ! (s ! k)) (z ! c') / T))"
  have "map (\<lambda>c. (if k = c then 0 else 1)
                  * fexp (cs (map (\<lambda>i. z ! i) s ! k) (map (\<lambda>i. z ! i) s ! c) / T)) [0..<?m]
      = map (\<lambda>c. g (s ! c)) [0..<?m]"
    using len k dist by (auto simp add: nth_eq_iff_index_eq g_def)
  then have "sum_list (map (\<lambda>c. (if k = c then 0 else 1)
                  * fexp (cs (map (\<lambda>i. z ! i) s ! k) (map (\<lambda>i. z ! i) s ! c) / T)) [0..<?m])
      = sum_list (map (\<lambda>c. g (s ! c)) [0..<?m])"
    by (rule arg_cong)
  also have "\<dots> = sum_list (map g [0..<?m])"
    using perm by (rule sum_list_reindex)
  finally show ?thesis
    using len k partner by (simp add: InfoNCE_row_loss_def g_def)
qed

text \<open>
  In exact arithmetic, InfoNCE of two batches of equal size reordered by one permutation
  \<open>p\<close> of the sample positions is InfoNCE of the two batches: the terms of every sum
  are the same, in another order. The lemma says nothing about the loss that torch
  computes in single precision, where addition is not associative and the order in which
  the terms of a sum are added is not fixed by the source, so that the two computed
  losses can differ in their last bits.
\<close>

lemma InfoNCE_exact_permutation_invariant:
  assumes eq: "length z_j = length z_i"
      and perm: "mset p = mset [0..<length z_i]"
  shows "InfoNCE_forward cosine_similarity temperature (permute p z_i) (permute p z_j)
         = InfoNCE_forward cosine_similarity temperature z_i z_j"
proof -
  let ?n = "length z_i"
  define z where "z = z_i @ z_j"
  define s where "s = p @ map (\<lambda>k. k + ?n) p"
  have lp: "length p = ?n"
    using perm by (metis length_upt minus_nat.diff_0 size_mset)
  have inp: "\<And>k. k \<in> set p \<Longrightarrow> k < ?n"
    using perm by (metis atLeastLessThan_iff set_mset_mset set_upt)
  have lz: "length z = 2 * ?n"
    using eq by (simp add: z_def)
  have "mset (map (\<lambda>k. k + ?n) p) = mset (map (\<lambda>k. k + ?n) [0..<?n])"
    using perm by (metis mset_map)
  also have "map (\<lambda>k. k + ?n) [0..<?n] = [?n..<2 * ?n]"
    by (simp add: map_add_upt mult_2)
  finally have "mset s = mset ([0..<?n] @ [?n..<2 * ?n])"
    by (simp add: s_def perm)
  also have "[0..<?n] @ [?n..<2 * ?n] = [0..<2 * ?n]"
    by (metis mult_2 upt_add_eq_append zero_le)
  finally have ms: "mset s = mset [0..<length z]"
    by (simp add: lz)
  have zs: "permute p z_i @ permute p z_j = map (\<lambda>i. z ! i) s"
    using inp eq by (auto simp add: permute_def s_def z_def nth_append)
  have rows: "InfoNCE_row_loss cosine_similarity temperature (map (\<lambda>i. z ! i) s) ?n k
        = InfoNCE_row_loss cosine_similarity temperature z ?n (s ! k)" if k: "k < 2 * ?n" for k
  proof (rule InfoNCE_row_loss_permuted [OF ms])
    show "k < length z" using k lz by simp
    show "(if k < ?n then k + ?n else k - ?n) < length z"
      using k lz by auto
    show "s ! (if k < ?n then k + ?n else k - ?n) = (if s ! k < ?n then s ! k + ?n else s ! k - ?n)"
    proof (cases "k < ?n")
      case True
      then have "p ! k < ?n" using inp lp by simp
      with True show ?thesis using lp by (simp add: s_def nth_append)
    next
      case False
      with k have "k - ?n < ?n" by arith
      with False show ?thesis using lp k by (simp add: s_def nth_append)
    qed
  qed
  have "InfoNCE_forward cosine_similarity temperature (permute p z_i) (permute p z_j)
      = Inr (sum_list (map (InfoNCE_row_loss cosine_similarity temperature (map (\<lambda>i. z ! i) s) ?n)
               [0..<2 * ?n]) / Fin (real (2 * ?n)))"
    using InfoNCE_index_form [of "permute p z_j" "permute p z_i" cosine_similarity temperature] lp
    by (simp add: permute_def zs [unfolded permute_def])
  also have "map (InfoNCE_row_loss cosine_similarity temperature (map (\<lambda>i. z ! i) s) ?n) [0..<2 * ?n]
      = map (\<lambda>k. InfoNCE_row_loss cosine_similarity temperature z ?n (s ! k)) [0..<2 * ?n]"
    using rows by simp
  also have "sum_list \<dots> = sum_list (map (InfoNCE_row_loss cosine_similarity temperature z ?n) [0..<2 * ?n])"
    using sum_list_reindex [of s "2 * ?n"] ms lz by simp
  also have "Inr (\<dots> / Fin (real (2 * ?n))) = InfoNCE_forward cosine_similarity temperature z_i z_j"
    using InfoNCE_index_form [OF eq, of cosine_similarity temperature] by (simp add: z_def)
  finally show ?thesis .
qed

end
